theory Spec2Isabelle
  imports Complex_Main
begin

section \<open>Filename sanitising (\<^verbatim>\<open>src/utils/video_utils.py\<close>)\<close>

text \<open>
  A Python \<^verbatim>\<open>str\<close> is a sequence of Unicode code points and \<^verbatim>\<open>len\<close> counts code
  points, so a Python string is modelled as a list of code points (natural numbers),
  not as a list of 8-bit characters.
\<close>

type_synonym pystr = "nat list"

definition py :: "string \<Rightarrow> pystr" where
  "py s = map of_char s"

text \<open>The character class of the pattern \<^verbatim>\<open>[<>:"/\\|?*]\<close>: nine ASCII characters.\<close>

definition invalid_chars :: "nat list" where
  "invalid_chars =
     py (''<>:'' @ [CHR 0x22] @ ''/'' @ [CHR 0x5C] @ ''|?*'')"

text \<open>\<^verbatim>\<open>re.sub(r'[<>:"/\\|?*]', '_', filename)\<close>: every match of the one-character
  class is replaced by an underscore.\<close>

definition re_sub_invalid :: "pystr \<Rightarrow> pystr" where
  "re_sub_invalid filename =
     map (\<lambda>c. if c \<in> set invalid_chars then of_char (CHR ''_'') else c) filename"

text \<open>\<^verbatim>\<open>str.strip(chars)\<close>: leading and trailing code points that occur in
  \<^verbatim>\<open>chars\<close> are removed.\<close>

definition py_strip :: "pystr \<Rightarrow> pystr \<Rightarrow> pystr" where
  "py_strip chars s =
     rev (dropWhile (\<lambda>c. c \<in> set chars) (rev (dropWhile (\<lambda>c. c \<in> set chars) s)))"

definition sanitize_filename :: "pystr \<Rightarrow> pystr" where
  "sanitize_filename filename =
     (let filename1 = re_sub_invalid filename;
          filename2 = py_strip (py '' .'') filename1
      in if length filename2 > 200 then take 200 filename2 else filename2)"



section \<open>Exceptions and Python floats\<close>

text \<open>A raised exception is a value carrying the text of \<^verbatim>\<open>str(e)\<close>; a computation that
  may raise returns a sum, \<open>Inl\<close> the exception.\<close>

datatype exn = Exception string

fun str_exn :: "exn \<Rightarrow> string" where
  "str_exn (Exception msg) = msg"

definition and_then :: "exn + 'a \<Rightarrow> ('a \<Rightarrow> exn + 'b) \<Rightarrow> exn + 'b" where
  "and_then r f = (case r of Inl e \<Rightarrow> Inl e | Inr v \<Rightarrow> f v)"

text \<open>
  A Python \<^verbatim>\<open>float\<close> is an IEEE 754 binary64 number: a finite value, an infinity or
  NaN (the two zeros are not distinguished). The result of an arithmetic operation
  on finite values is the exact result rounded to the nearest binary64 number, ties
  to the even significand: with \<open>e\<close> the binary exponent of \<open>x\<close>, not below
  \<open>-1022\<close>, the neighbours of \<open>x\<close> are the multiples of \<open>2 powi (e - 52)\<close>, and a
  result rounded to \<open>2 ^ 1024\<close> or beyond is an infinity.
\<close>

datatype pyfloat = Finite real | PosInf | NegInf | NaN

definition round_half_even :: "real \<Rightarrow> int" where
  "round_half_even x =
     (let f = \<lfloor>x\<rfloor>; d = x - of_int f in
      if d < 1 / 2 then f
      else if 1 / 2 < d then f + 1
      else if even f then f else f + 1)"

definition float_exponent :: "real \<Rightarrow> int" where
  "float_exponent x = max \<lfloor>log 2 \<bar>x\<bar>\<rfloor> (- 1022)"

definition round_binary64 :: "real \<Rightarrow> pyfloat" where
  "round_binary64 x =
     (if x = 0 then Finite 0
      else
        let q = 2 powi (float_exponent x - 52);
            y = of_int (round_half_even (x / q)) * q
        in if 2 ^ 1024 \<le> \<bar>y\<bar> then (if 0 < x then PosInf else NegInf) else Finite y)"

text \<open>Negation, addition, subtraction and multiplication of floats; none of them
  raises.\<close>

fun float_neg :: "pyfloat \<Rightarrow> pyfloat" where
  "float_neg (Finite a) = Finite (- a)"
| "float_neg PosInf = NegInf"
| "float_neg NegInf = PosInf"
| "float_neg NaN = NaN"

fun float_add :: "pyfloat \<Rightarrow> pyfloat \<Rightarrow> pyfloat" where
  "float_add (Finite a) (Finite b) = round_binary64 (a + b)"
| "float_add NaN y = NaN"
| "float_add x NaN = NaN"
| "float_add PosInf NegInf = NaN"
| "float_add NegInf PosInf = NaN"
| "float_add PosInf y = PosInf"
| "float_add x PosInf = PosInf"
| "float_add NegInf y = NegInf"
| "float_add x NegInf = NegInf"

definition float_sub :: "pyfloat \<Rightarrow> pyfloat \<Rightarrow> pyfloat" where
  "float_sub x y = float_add x (float_neg y)"

fun negative :: "pyfloat \<Rightarrow> bool" where
  "negative (Finite a) = (a < 0)"
| "negative NegInf = True"
| "negative x = False"

fun float_mul :: "pyfloat \<Rightarrow> pyfloat \<Rightarrow> pyfloat" where
  "float_mul (Finite a) (Finite b) = round_binary64 (a * b)"
| "float_mul NaN y = NaN"
| "float_mul x NaN = NaN"
| "float_mul x y =
     (if x = Finite 0 \<or> y = Finite 0 then NaN
      else if negative x = negative y then PosInf else NegInf)"

text \<open>\<^verbatim>\<open>x / y\<close> on floats raises on a zero divisor.\<close>

fun float_truediv :: "pyfloat \<Rightarrow> pyfloat \<Rightarrow> exn + pyfloat" where
  "float_truediv x (Finite b) =
     (if b = 0 then Inl (Exception ''float division by zero'')
      else case x of
        Finite a \<Rightarrow> Inr (round_binary64 (a / b))
      | NaN \<Rightarrow> Inr NaN
      | x \<Rightarrow> Inr (if negative x = (b < 0) then PosInf else NegInf))"
| "float_truediv NaN y = Inr NaN"
| "float_truediv x NaN = Inr NaN"
| "float_truediv (Finite a) y = Inr (Finite 0)"
| "float_truediv x y = Inr NaN"

text \<open>The conversion of an \<^verbatim>\<open>int\<close> operand of a float operation, and \<^verbatim>\<open>a / b\<close> on
  two \<^verbatim>\<open>int\<close>s: both round the exact value and raise \<^verbatim>\<open>OverflowError\<close> instead of
  returning an infinity.\<close>

definition float_of_int :: "int \<Rightarrow> exn + pyfloat" where
  "float_of_int n =
     (case round_binary64 (of_int n) of
        Finite y \<Rightarrow> Inr (Finite y)
      | r \<Rightarrow> Inl (Exception ''int too large to convert to float''))"

definition int_truediv :: "int \<Rightarrow> int \<Rightarrow> exn + pyfloat" where
  "int_truediv a b =
     (if b = 0 then Inl (Exception ''division by zero'')
      else case round_binary64 (of_int a / of_int b) of
        Finite y \<Rightarrow> Inr (Finite y)
      | r \<Rightarrow> Inl (Exception ''integer division result too large for a float''))"

fun float_abs :: "pyfloat \<Rightarrow> pyfloat" where
  "float_abs (Finite a) = Finite \<bar>a\<bar>"
| "float_abs NaN = NaN"
| "float_abs x = PosInf"

text \<open>The comparisons \<^verbatim>\<open><\<close> and \<^verbatim>\<open><=\<close>: every comparison with NaN is false. Python
  compares a float with an \<^verbatim>\<open>int\<close> exactly, so an \<^verbatim>\<open>int\<close> operand is the number
  it is (\<open>number\<close>), not its conversion to a float.\<close>

fun float_lt :: "pyfloat \<Rightarrow> pyfloat \<Rightarrow> bool" where
  "float_lt (Finite a) (Finite b) = (a < b)"
| "float_lt NaN y = False"
| "float_lt x NaN = False"
| "float_lt x NegInf = False"
| "float_lt PosInf y = False"
| "float_lt x y = True"

fun float_le :: "pyfloat \<Rightarrow> pyfloat \<Rightarrow> bool" where
  "float_le (Finite a) (Finite b) = (a \<le> b)"
| "float_le NaN y = False"
| "float_le x NaN = False"
| "float_le NegInf y = True"
| "float_le x PosInf = True"
| "float_le x y = False"

definition number :: "int \<Rightarrow> pyfloat" where
  "number n = Finite (of_int n)"

text \<open>\<^verbatim>\<open>int(x)\<close> on a float truncates towards zero and raises on an infinity and on
  NaN.\<close>

fun py_int :: "pyfloat \<Rightarrow> exn + int" where
  "py_int (Finite x) = Inr (if 0 \<le> x then \<lfloor>x\<rfloor> else \<lceil>x\<rceil>)"
| "py_int NaN = Inl (Exception ''cannot convert float NaN to integer'')"
| "py_int x = Inl (Exception ''cannot convert float infinity to integer'')"

text \<open>\<^verbatim>\<open>max(0, v)\<close> and \<^verbatim>\<open>min(n, v)\<close> with an \<^verbatim>\<open>int\<close> first: the first argument is
  returned unless the second is greater, respectively smaller.\<close>

definition py_max0 :: "pyfloat \<Rightarrow> pyfloat" where
  "py_max0 v = (if float_lt (number 0) v then v else number 0)"

definition py_min :: "int \<Rightarrow> pyfloat \<Rightarrow> pyfloat" where
  "py_min n v = (if float_lt v (number n) then v else number n)"


section \<open>Data model (\<^verbatim>\<open>src/models/state.py\<close>, \<^verbatim>\<open>src/models/config.py\<close>)\<close>

text \<open>
  Strings that are only stored, compared and concatenated are HOL strings. The start
  and end times of a clip are Python floats, on which the stages compute. A score
  is the real number its float denotes: \<^verbatim>\<open>VideoSegment\<close> bounds it by 1 and 10, which
  excludes NaN and the infinities, and the stages only compare it. The other floats
  are only stored and are real numbers as well.
\<close>

record video_segment =
  start_time :: pyfloat
  end_time :: pyfloat
  content :: string
  score :: real
  reasoning :: string
  segment_type :: string

record transcript_segment =
  ts_start_time :: real
  ts_end_time :: real
  ts_text :: string
  ts_confidence :: "real option"

record clip_metadata =
  title :: string
  description :: string
  hashtags :: "string list"
  thumbnail_time :: real
  duration :: real

text \<open>An entry of \<^verbatim>\<open>processed_clips\<close>: the fields of \<^verbatim>\<open>ProcessingResult.dict()\<close>
  and the keys the clip generation stage adds to them.\<close>

record processed_clip =
  success :: bool
  output_path :: "string option"
  pc_errors :: "string list"
  pc_metadata :: "clip_metadata option"
  processing_time :: "real option"
  clip_index :: nat
  segment_data :: video_segment
  file_size_mb :: "real option"
  thumbnail_path :: "string option"
  filename :: pystr

text \<open>The value stored under \<^verbatim>\<open>video_metadata\<close> by the download stage.\<close>

record video_info =
  uploader :: string
  upload_date :: "string option"
  view_count :: int
  like_count :: int
  vm_description :: string
  vm_file_size_mb :: real
  format :: string
  vm_resolution :: string
  fps :: int

text \<open>\<^verbatim>\<open>PodcastState\<close>. The key \<^verbatim>\<open>video_metadata\<close> is not declared in the
  \<^verbatim>\<open>TypedDict\<close>, but the download stage writes it.\<close>

record podcast_state =
  url :: string
  video_path :: "string option"
  audio_path :: "string option"
  transcript :: "string option"
  transcript_segments :: "transcript_segment list"
  transcript_source :: "string option"
  identified_clips :: "video_segment list"
  selected_clips :: "video_segment list"
  processed_clips :: "processed_clip list"
  metadata :: "clip_metadata list"
  video_title :: "string option"
  video_duration :: "real option"
  video_id :: "string option"
  errors :: "string list"
  warnings :: "string list"
  config :: "(string \<times> int) list"
  status :: string
  created_at :: "string option"
  completed_at :: "string option"
  video_metadata :: "video_info option"

record video_config =
  resolution :: "int \<times> int"
  aspect_ratio :: string

record llm_config =
  model_name :: string
  temperature :: real
  api_key :: "string option"

record processing_config =
  max_clips_per_video :: int
  min_clip_duration :: int
  max_clip_duration :: int
  target_clip_duration :: int
  min_engagement_score :: real
  max_video_duration :: int
  api_rate_limit_delay :: real

record app_config =
  output_directory :: string
  temp_directory :: string
  video :: video_config
  llm :: llm_config
  processing :: processing_config


section \<open>Clip selection stage (\<^verbatim>\<open>src/nodes/selection_node.py\<close>)\<close>

text \<open>\<^verbatim>\<open>VideoSegment(**clip_data)\<close>: the constructor validates the declared bounds
  \<^verbatim>\<open>ge=1, le=10\<close> of \<^verbatim>\<open>score\<close> and raises otherwise. The wording of the validation
  error is not modelled.\<close>

definition VideoSegment :: "video_segment \<Rightarrow> exn + video_segment" where
  "VideoSegment clip_data =
     (if 1 \<le> score clip_data \<and> score clip_data \<le> 10 then Inr clip_data
      else Inl (Exception ''1 validation error for VideoSegment''))"

text \<open>\<^verbatim>\<open>[VideoSegment(**clip_data) for clip_data in identified_clips]\<close>: the first
  invalid entry raises.\<close>

fun parse_clips :: "video_segment list \<Rightarrow> exn + video_segment list" where
  "parse_clips [] = Inr []"
| "parse_clips (clip_data # rest) =
     (case VideoSegment clip_data of
        Inl e \<Rightarrow> Inl e
      | Inr clip \<Rightarrow> (case parse_clips rest of Inl e \<Rightarrow> Inl e | Inr clips \<Rightarrow> Inr (clip # clips)))"

text \<open>The validation loop (lines 41 to 59). The duration is the float difference of
  the times; the two bounds it is compared with are \<^verbatim>\<open>int\<close>s. A rejected clip is
  reported with \<^verbatim>\<open>print\<close> only and skipped with \<^verbatim>\<open>continue\<close>; standard output is not
  part of the state.\<close>

fun validate_clips :: "processing_config \<Rightarrow> video_segment list \<Rightarrow> video_segment list" where
  "validate_clips p [] = []"
| "validate_clips p (clip # clips) =
     (let duration = float_sub (end_time clip) (start_time clip) in
      if float_lt duration (number (min_clip_duration p)) then validate_clips p clips
      else if float_lt (number (max_clip_duration p)) duration then validate_clips p clips
      else if score clip < min_engagement_score p then validate_clips p clips
      else clip # validate_clips p clips)"

text \<open>\<^verbatim>\<open>validated_clips.sort(key=lambda x: x.score, reverse=True)\<close>. Python's sort is
  stable; with \<^verbatim>\<open>reverse=True\<close> it reverses the list, sorts it stably in ascending
  order of the key and reverses the result.\<close>

definition sort_score_reverse :: "video_segment list \<Rightarrow> video_segment list" where
  "sort_score_reverse clips = rev (sort_key score (rev clips))"

text \<open>The slice \<^verbatim>\<open>xs[:k]\<close>: a negative \<^verbatim>\<open>k\<close> counts from the end of the list.\<close>

definition slice_to :: "'a list \<Rightarrow> int \<Rightarrow> 'a list" where
  "slice_to xs k =
     (if k < 0 then take (nat (int (length xs) + k)) xs else take (nat k) xs)"

text \<open>The sorted survivors (lines 41 to 64) and the clips taken from them (lines 66 to 68).\<close>

definition validated_clips :: "processing_config \<Rightarrow> video_segment list \<Rightarrow> video_segment list" where
  "validated_clips p clips = sort_score_reverse (validate_clips p clips)"

definition selected_prefix :: "processing_config \<Rightarrow> video_segment list \<Rightarrow> video_segment list" where
  "selected_prefix p clips = slice_to (validated_clips p clips) (max_clips_per_video p)"

text \<open>\<open>select_clips_node\<close>. Its first argument is the outcome of
  \<^verbatim>\<open>AppConfig.from_env()\<close>, which raises when an environment variable is missing
  or malformed. \<^verbatim>\<open>warnings.append\<close> and \<^verbatim>\<open>errors.append\<close> mutate the lists held by
  the state.\<close>

definition select_clips_node :: "exn + app_config \<Rightarrow> podcast_state \<Rightarrow> podcast_state" where
  "select_clips_node from_env state =
     (if identified_clips state = [] then
        state\<lparr>warnings := warnings state @ [''No clips identified by analysis''],
              selected_clips := [],
              status := ''no_clips_identified''\<rparr>
      else
        case (case from_env of
                Inl e \<Rightarrow> Inl e
              | Inr app_config \<Rightarrow>
                  (case parse_clips (identified_clips state) of
                     Inl e \<Rightarrow> Inl e
                   | Inr clips \<Rightarrow> Inr (selected_prefix (processing app_config) clips))) of
          Inl e \<Rightarrow>
            state\<lparr>errors := errors state @ [''Clip selection failed: '' @ str_exn e],
                  status := ''selection_failed''\<rparr>
        | Inr selected \<Rightarrow>
            if selected = [] then
              state\<lparr>warnings := warnings state @ [''No clips passed validation criteria''],
                    selected_clips := [],
                    status := ''no_clips_passed_validation''\<rparr>
            else
              state\<lparr>selected_clips := selected, status := ''clips_selected''\<rparr>)"


section \<open>Portrait conversion (\<^verbatim>\<open>src/nodes/clip_generation_node.py\<close>)\<close>

text \<open>The result of \<open>convert_to_portrait\<close> is the video operation it builds:
  a plain resize, a crop along one axis followed by a resize, or the resized clip
  placed at a position on a black canvas of the target size. The first argument is
  \<^verbatim>\<open>clip.size\<close>. The aspect ratios, the optimal sizes and the scale factors are
  floats; \<^verbatim>\<open>0.01\<close> is the float nearest to one hundredth.\<close>

datatype clip_op =
    Resized "int \<times> int"
  | CroppedY pyfloat pyfloat "int \<times> int"
  | CroppedX pyfloat pyfloat "int \<times> int"
  | Composite (canvas: "int \<times> int") (resized_to: "int \<times> int") (position: "int \<times> int")

definition convert_to_portrait :: "int \<times> int \<Rightarrow> int \<times> int \<Rightarrow> exn + clip_op" where
  "convert_to_portrait clip_size target_resolution =
     (let (target_width, target_height) = target_resolution;
          (current_width, current_height) = clip_size
      in
      and_then (int_truediv target_width target_height) (\<lambda>target_aspect.
      and_then (int_truediv current_width current_height) (\<lambda>current_aspect.
        if float_lt (float_abs (float_sub current_aspect target_aspect))
             (round_binary64 (1 / 100)) then
          Inr (Resized (target_width, target_height))
        else if float_lt target_aspect current_aspect then
          and_then (float_of_int current_width) (\<lambda>width.
          and_then (float_truediv width target_aspect) (\<lambda>optimal_height.
            if float_le optimal_height (number current_height) then
              let crop_height = optimal_height in
              and_then (int_truediv current_height 2) (\<lambda>y_center.
              and_then (float_truediv crop_height (number 2)) (\<lambda>half.
                let y1 = py_max0 (float_sub y_center half);
                    y2 = py_min current_height (float_add y1 crop_height)
                in Inr (CroppedY y1 y2 (target_width, target_height))))
            else
              and_then (int_truediv target_height current_height) (\<lambda>scale_factor.
              and_then (float_of_int current_width) (\<lambda>width.
              and_then (py_int (float_mul width scale_factor)) (\<lambda>new_width.
                let x_offset = (target_width - new_width) div 2
                in Inr (Composite (target_width, target_height)
                                  (new_width, target_height) (x_offset, 0)))))))
        else
          and_then (float_of_int current_height) (\<lambda>height.
            let optimal_width = float_mul height target_aspect in
            if float_le optimal_width (number current_width) then
              let crop_width = optimal_width in
              and_then (int_truediv current_width 2) (\<lambda>x_center.
              and_then (float_truediv crop_width (number 2)) (\<lambda>half.
                let x1 = py_max0 (float_sub x_center half);
                    x2 = py_min current_width (float_add x1 crop_width)
                in Inr (CroppedX x1 x2 (target_width, target_height))))
            else
              and_then (int_truediv target_width current_width) (\<lambda>scale_factor.
              and_then (float_of_int current_height) (\<lambda>height.
              and_then (py_int (float_mul height scale_factor)) (\<lambda>new_height.
                let y_offset = (target_height - new_height) div 2
                in Inr (Composite (target_width, target_height)
                                  (target_width, new_height) (0, y_offset)))))))))"



section \<open>External collaborators\<close>

text \<open>
  The stages call the environment, the transcript service, the language model, the
  downloader and the video library. Their outcomes in a run are parameters of the
  model: each field below is the result of one such call, \<open>Inl\<close> (or \<open>Some\<close> for a
  call without a result) when the call raises. The graph runtime is not part of the
  repository either: \<open>lists_shared\<close> says whether it hands the list objects of the
  initial state on to the stages, so that what they append to \<^verbatim>\<open>errors\<close> and
  \<^verbatim>\<open>warnings\<close> is seen in the initial state, or copies them. \<open>now n\<close> is the time
  stamp \<^verbatim>\<open>datetime.now().isoformat()\<close> read at one of the four places of the source:
  0 for \<^verbatim>\<open>created_at\<close> in \<^verbatim>\<open>process_video\<close>, 1 for \<^verbatim>\<open>created_at\<close> in the transcript
  stage, 2 for \<^verbatim>\<open>completed_at\<close> after the workflow, 3 for \<^verbatim>\<open>completed_at\<close> in the
  \<^verbatim>\<open>except\<close> branch of \<^verbatim>\<open>process_video\<close>.
\<close>

record ydl_info =
  i_title :: "string option"
  i_duration :: "int option"
  i_uploader :: "string option"
  i_upload_date :: "string option"
  i_view_count :: "int option"
  i_like_count :: "int option"
  i_description :: "string option"
  i_ext :: "string option"
  i_width :: "int option"
  i_height :: "int option"
  i_fps :: "int option"

record written_clip =
  w_clip_path :: string
  w_thumbnail_path :: string
  w_generation_time :: real
  w_file_size_mb :: real

record env =
  from_env :: "exn + app_config"
  extract_video_id_from_url :: "string \<Rightarrow> string"
  get_video_metadata :: "string \<Rightarrow> exn + (string option \<times> real option)"
  fetch_youtube_transcript :: "string \<Rightarrow> exn + (string \<times> transcript_segment list \<times> string)"
  now :: "nat \<Rightarrow> string"
  generate_content :: "app_config \<Rightarrow> podcast_state \<Rightarrow> exn + video_segment list"
  make_directories :: "exn option"
  ydl_extract_info :: "string \<Rightarrow> exn + ydl_info"
  long_video_warning :: "int \<Rightarrow> int \<Rightarrow> string"
  ydl_download :: "string \<Rightarrow> exn + string option"
  path_exists :: "string \<Rightarrow> bool"
  getsize :: "string \<Rightarrow> nat"
  open_video :: "string \<Rightarrow> exn option"
  subclipped :: "video_segment \<Rightarrow> exn + (int \<times> int)"
  write_clip :: "nat \<Rightarrow> video_segment \<Rightarrow> clip_op option \<Rightarrow> pystr \<Rightarrow> exn + written_clip"
  elapsed :: "nat \<Rightarrow> real"
  close_video :: "exn option"
  configure_model :: "exn option"
  generate_clip_metadata :: "nat \<Rightarrow> processed_clip \<Rightarrow> exn + clip_metadata option"
  lists_shared :: bool


section \<open>Helpers shared by the stages\<close>

text \<open>\<^verbatim>\<open>not x\<close> for an optional string: true for \<^verbatim>\<open>None\<close> and for the empty string.\<close>

fun falsy :: "string option \<Rightarrow> bool" where
  "falsy None = True"
| "falsy (Some x) = (x = [])"

text \<open>\<^verbatim>\<open>str(i)\<close> for an integer, and the format \<^verbatim>\<open>{i:02d}\<close>.\<close>

function str_nat :: "nat \<Rightarrow> string" where
  "str_nat n =
     (if n < 10 then [char_of (48 + n)]
      else str_nat (n div 10) @ [char_of (48 + n mod 10)])"
  by pat_completeness auto
termination
  by (relation "measure id") auto

declare str_nat.simps [simp del]

definition str_int :: "int \<Rightarrow> string" where
  "str_int i = (if i < 0 then ''-'' @ str_nat (nat (- i)) else str_nat (nat i))"

definition fmt_02d :: "nat \<Rightarrow> string" where
  "fmt_02d i = (if i < 10 then ''0'' @ str_nat i else str_nat i)"

text \<open>The overrides read from \<^verbatim>\<open>state["config"]\<close> by the analysis and the clip
  generation stages.\<close>

definition override :: "(string \<times> int) list \<Rightarrow> string \<Rightarrow> int \<Rightarrow> int" where
  "override custom_config key v = (case map_of custom_config key of Some v' \<Rightarrow> v' | None \<Rightarrow> v)"

definition apply_custom_config :: "(string \<times> int) list \<Rightarrow> app_config \<Rightarrow> app_config" where
  "apply_custom_config custom_config app_config =
     (if custom_config = [] then app_config
      else app_config\<lparr>processing := (processing app_config)
        \<lparr>max_clips_per_video :=
           override custom_config ''max_clips_per_video'' (max_clips_per_video (processing app_config)),
         target_clip_duration :=
           override custom_config ''target_clip_duration'' (target_clip_duration (processing app_config)),
         min_clip_duration :=
           override custom_config ''min_clip_duration'' (min_clip_duration (processing app_config)),
         max_clip_duration :=
           override custom_config ''max_clip_duration'' (max_clip_duration (processing app_config))\<rparr>\<rparr>)"


section \<open>Transcript stage (\<^verbatim>\<open>src/nodes/transcript_node.py\<close>)\<close>

definition fetch_transcript_node :: "env \<Rightarrow> podcast_state \<Rightarrow> podcast_state" where
  "fetch_transcript_node env state =
     (let video_id' = extract_video_id_from_url env (url state);
          state1 =
            (case get_video_metadata env (url state) of
               Inr (title', length') \<Rightarrow>
                 state\<lparr>video_title := Some (case title' of None \<Rightarrow> ''Unknown Title'' | Some t \<Rightarrow> t),
                       video_duration := Some (case length' of None \<Rightarrow> 0 | Some l \<Rightarrow> l),
                       video_id := Some video_id'\<rparr>
             | Inl e \<Rightarrow>
                 state\<lparr>warnings := warnings state @ [''Could not fetch video metadata: '' @ str_exn e],
                       video_title := Some ''Unknown Title'',
                       video_duration := Some 0,
                       video_id := Some video_id'\<rparr>)
      in
      case fetch_youtube_transcript env (url state) of
        Inr (full_transcript, segments, source) \<Rightarrow>
          let state2 = state1\<lparr>transcript := Some full_transcript,
                              transcript_segments := segments,
                              transcript_source := Some source,
                              status := ''transcript_fetched''\<rparr>
          in if created_at state2 = None then state2\<lparr>created_at := Some (now env 1)\<rparr> else state2
      | Inl e \<Rightarrow>
          state1\<lparr>errors := errors state1 @ [''Failed to fetch transcript: '' @ str_exn e],
                 status := ''failed''\<rparr>)"


section \<open>Analysis stage (\<^verbatim>\<open>src/nodes/analysis_node.py\<close>)\<close>

text \<open>The body of the \<^verbatim>\<open>try\<close> block up to the parsed answer of the language model:
  configuration, overrides, the check of the API key, then the call and the parsing
  of its answer (\<open>generate_content\<close>).\<close>

definition identify_clips :: "env \<Rightarrow> podcast_state \<Rightarrow> exn + video_segment list" where
  "identify_clips env state =
     (case from_env env of
        Inl e \<Rightarrow> Inl e
      | Inr app_config0 \<Rightarrow>
          let app_config = apply_custom_config (config state) app_config0 in
          if falsy (api_key (llm app_config)) then Inl (Exception ''Google API key not configured'')
          else generate_content env app_config state)"

definition analyze_content_node :: "env \<Rightarrow> podcast_state \<Rightarrow> podcast_state" where
  "analyze_content_node env state =
     (if falsy (transcript state) \<or> transcript_segments state = [] then
        state\<lparr>errors := errors state @ [''No transcript available for analysis'']\<rparr>
      else
        case identify_clips env state of
          Inr clips \<Rightarrow> state\<lparr>identified_clips := clips, status := ''clips_identified''\<rparr>
        | Inl e \<Rightarrow>
            state\<lparr>errors := errors state @ [''Content analysis failed: '' @ str_exn e],
                  status := ''analysis_failed''\<rparr>)"



section \<open>Download stage (\<^verbatim>\<open>src/nodes/video_download_node.py\<close>)\<close>

text \<open>The \<^verbatim>\<open>except\<close> branch of the stage.\<close>

definition download_failed :: "exn \<Rightarrow> podcast_state \<Rightarrow> podcast_state" where
  "download_failed e state =
     state\<lparr>errors := errors state @ [''Video download failed: '' @ str_exn e],
           status := ''failed''\<rparr>"

text \<open>\<^verbatim>\<open>d.get(key, default)\<close> on the dictionary returned by the downloader.\<close>

definition or_default :: "'a option \<Rightarrow> 'a \<Rightarrow> 'a" where
  "or_default x d = (case x of None \<Rightarrow> d | Some v \<Rightarrow> v)"

definition download_video_node :: "env \<Rightarrow> podcast_state \<Rightarrow> podcast_state" where
  "download_video_node env state =
     (let state1 =
            (if falsy (video_id state)
             then state\<lparr>video_id := Some (extract_video_id_from_url env (url state))\<rparr>
             else state)
      in
      case from_env env of
        Inl e \<Rightarrow> download_failed e state1
      | Inr app_config \<Rightarrow>
          (case make_directories env of
             Some e \<Rightarrow> download_failed e state1
           | None \<Rightarrow>
               (case ydl_extract_info env (url state) of
                  Inl e \<Rightarrow> download_failed e state1
                | Inr info \<Rightarrow>
                    let duration' = or_default (i_duration info) 0;
                        state2 =
                          (if duration' > max_video_duration (processing app_config)
                           then state1\<lparr>warnings := warnings state1 @
                                  [long_video_warning env duration'
                                     (max_video_duration (processing app_config))]\<rparr>
                           else state1)
                    in
                    case ydl_download env (url state) of
                      Inl e \<Rightarrow> download_failed e state2
                    | Inr actual_video_path \<Rightarrow>
                        if falsy actual_video_path then
                          download_failed
                            (Exception ''Video download completed but file not found'') state2
                        else if \<not> path_exists env (the actual_video_path)
                                \<or> getsize env (the actual_video_path) = 0 then
                          download_failed
                            (Exception ''Downloaded video file is empty or corrupted'') state2
                        else
                          state2\<lparr>video_path := actual_video_path,
                                 video_title := Some (or_default (i_title info) ''Unknown Title''),
                                 video_duration := Some (real_of_int (or_default (i_duration info) 0)),
                                 video_metadata := Some
                                   \<lparr>uploader = or_default (i_uploader info) ''Unknown'',
                                    upload_date = i_upload_date info,
                                    view_count = or_default (i_view_count info) 0,
                                    like_count = or_default (i_like_count info) 0,
                                    vm_description = or_default (i_description info) [],
                                    vm_file_size_mb =
                                      real (getsize env (the actual_video_path)) / (1024 * 1024),
                                    format = or_default (i_ext info) ''mp4'',
                                    vm_resolution =
                                      str_int (or_default (i_width info) 0) @ ''x'' @
                                      str_int (or_default (i_height info) 0),
                                    fps = or_default (i_fps info) 30\<rparr>,
                                 status := ''video_downloaded''\<rparr>)))"


section \<open>Clip generation stage (\<^verbatim>\<open>src/nodes/clip_generation_node.py\<close>)\<close>

text \<open>One iteration of the loop over the clips: the processed entry it appends and
  the warnings it appends (none when the clip is written).\<close>

definition failed_clip :: "env \<Rightarrow> nat \<Rightarrow> video_segment \<Rightarrow> exn \<Rightarrow> processed_clip \<times> string list" where
  "failed_clip env i clip e =
     (let error_msg = ''Failed to generate clip '' @ str_nat i @ '': '' @ str_exn e in
      (\<lparr>success = False, output_path = None, pc_errors = [error_msg], pc_metadata = None,
        processing_time = Some (elapsed env i), clip_index = i, segment_data = clip,
        file_size_mb = None, thumbnail_path = None,
        filename = py (''failed_clip_'' @ str_nat i @ ''.mp4'')\<rparr>,
       [error_msg]))"

definition generate_clip :: "env \<Rightarrow> app_config \<Rightarrow> nat \<Rightarrow> video_segment \<Rightarrow> processed_clip \<times> string list" where
  "generate_clip env app_config i clip =
     (case subclipped env clip of
        Inl e \<Rightarrow> failed_clip env i clip e
      | Inr clip_size \<Rightarrow>
          (case (if aspect_ratio (video app_config) = ''original'' then Inr None
                 else map_sum id Some
                        (convert_to_portrait clip_size (resolution (video app_config)))) of
             Inl e \<Rightarrow> failed_clip env i clip e
           | Inr final_clip \<Rightarrow>
               let clip_title =
                     sanitize_filename (py (''clip_'' @ fmt_02d i @ ''_'' @ segment_type clip));
                   clip_filename = clip_title @ py ''.mp4''
               in
               case write_clip env i clip final_clip clip_title of
                 Inl e \<Rightarrow> failed_clip env i clip e
               | Inr w \<Rightarrow>
                   (\<lparr>success = True, output_path = Some (w_clip_path w), pc_errors = [],
                     pc_metadata = None, processing_time = Some (w_generation_time w),
                     clip_index = i, segment_data = clip,
                     file_size_mb = Some (w_file_size_mb w),
                     thumbnail_path = Some (w_thumbnail_path w),
                     filename = clip_filename\<rparr>,
                    [])))"

fun generate_loop :: "env \<Rightarrow> app_config \<Rightarrow> nat \<Rightarrow> video_segment list \<Rightarrow> processed_clip list \<times> string list" where
  "generate_loop env app_config i [] = ([], [])"
| "generate_loop env app_config i (clip # clips) =
     (let (r, w) = generate_clip env app_config i clip;
          (rs, ws) = generate_loop env app_config (Suc i) clips
      in (r # rs, w @ ws))"

text \<open>The outer \<^verbatim>\<open>except\<close> branch of the stage. Joining the output directory
  with a \<open>video_id\<close> that is \<^verbatim>\<open>None\<close> raises a \<^verbatim>\<open>TypeError\<close>, whose wording is
  abbreviated below.\<close>

definition generation_failed :: "exn \<Rightarrow> podcast_state \<Rightarrow> podcast_state" where
  "generation_failed e state =
     state\<lparr>errors := errors state @ [''Clip generation failed: '' @ str_exn e],
           status := ''failed''\<rparr>"

definition generate_clips_node :: "env \<Rightarrow> podcast_state \<Rightarrow> podcast_state" where
  "generate_clips_node env state =
     (if falsy (video_path state) \<or> \<not> path_exists env (the (video_path state)) then
        state\<lparr>errors := errors state @ [''No video file available for clip generation'']\<rparr>
      else if selected_clips state = [] then
        state\<lparr>warnings := warnings state @ [''No clips selected for generation''],
              processed_clips := [],
              status := ''no_clips_to_generate''\<rparr>
      else
        case from_env env of
          Inl e \<Rightarrow> generation_failed e state
        | Inr app_config0 \<Rightarrow>
            let app_config = apply_custom_config (config state) app_config0 in
            if video_id state = None then
              generation_failed (Exception ''unsupported operand type(s) for /'') state
            else
              (case make_directories env of
                 Some e \<Rightarrow> generation_failed e state
               | None \<Rightarrow>
                   (case open_video env (the (video_path state)) of
                      Some e \<Rightarrow> generation_failed e state
                    | None \<Rightarrow>
                        (case parse_clips (selected_clips state) of
                           Inl e \<Rightarrow> generation_failed e state
                         | Inr clips \<Rightarrow>
                             let (processed, new_warnings) = generate_loop env app_config 1 clips;
                                 state1 = state\<lparr>warnings := warnings state @ new_warnings\<rparr>
                             in
                             case close_video env of
                               Some e \<Rightarrow> generation_failed e state1
                             | None \<Rightarrow>
                                 state1\<lparr>processed_clips := processed,
                                        status := (if filter success processed \<noteq> []
                                                   then ''clips_generated''
                                                   else ''clip_generation_failed'')\<rparr>))))"


section \<open>Metadata stage (\<^verbatim>\<open>src/nodes/metadata_generation_node.py\<close>)\<close>

text \<open>The loop over the successful clips: the metadata collected and the warnings
  appended.\<close>

fun metadata_loop :: "env \<Rightarrow> nat \<Rightarrow> processed_clip list \<Rightarrow> clip_metadata list \<times> string list" where
  "metadata_loop env i [] = ([], [])"
| "metadata_loop env i (clip_data # rest) =
     (let (ms, ws) = metadata_loop env (Suc i) rest in
      case generate_clip_metadata env i clip_data of
        Inr (Some m) \<Rightarrow> (m # ms, ws)
      | Inr None \<Rightarrow> (ms, (''Failed to generate metadata for clip '' @ str_nat i) # ws)
      | Inl e \<Rightarrow>
          (ms, (''Failed to generate metadata for clip '' @ str_nat i @ '': '' @ str_exn e) # ws))"

definition metadata_failed :: "exn \<Rightarrow> podcast_state \<Rightarrow> podcast_state" where
  "metadata_failed e state =
     state\<lparr>errors := errors state @ [''Metadata generation failed: '' @ str_exn e],
           status := ''failed''\<rparr>"

definition generate_metadata_node :: "env \<Rightarrow> podcast_state \<Rightarrow> podcast_state" where
  "generate_metadata_node env state =
     (if processed_clips state = [] then
        state\<lparr>warnings := warnings state @
                [''No processed clips available for metadata generation''],
              metadata := []\<rparr>
      else
        let successful_clips = filter success (processed_clips state) in
        if successful_clips = [] then
          state\<lparr>warnings := warnings state @ [''No successful clips to generate metadata for''],
                metadata := []\<rparr>
        else
          case from_env env of
            Inl e \<Rightarrow> metadata_failed e state
          | Inr app_config \<Rightarrow>
              if falsy (api_key (llm app_config)) then
                metadata_failed (Exception ''Google API key not configured'') state
              else
                (case configure_model env of
                   Some e \<Rightarrow> metadata_failed e state
                 | None \<Rightarrow>
                     let (generated_metadata, new_warnings) = metadata_loop env 1 successful_clips
                     in state\<lparr>metadata := generated_metadata,
                              warnings := warnings state @ new_warnings,
                              status := ''metadata_generated''\<rparr>))"


section \<open>The workflow graph (\<^verbatim>\<open>src/agents/podcast_agent.py\<close>)\<close>

datatype node =
    fetch_transcript | analyze_content | select_clips
  | download_video | generate_clips | generate_metadata

definition should_continue_after_transcript :: "podcast_state \<Rightarrow> string" where
  "should_continue_after_transcript state =
     (if status state = ''failed'' then ''end''
      else if falsy (transcript state) then ''end''
      else ''analyze'')"

definition should_continue_after_analysis :: "podcast_state \<Rightarrow> string" where
  "should_continue_after_analysis state =
     (if status state = ''failed'' then ''end''
      else if identified_clips state = [] then ''end''
      else ''select'')"

definition should_continue_after_selection :: "podcast_state \<Rightarrow> string" where
  "should_continue_after_selection state =
     (if status state = ''failed'' then ''end''
      else if selected_clips state = [] then ''end''
      else ''download'')"

definition should_continue_after_download :: "podcast_state \<Rightarrow> string" where
  "should_continue_after_download state =
     (if status state = ''failed'' then ''end''
      else if falsy (video_path state) then ''end''
      else ''generate'')"

definition should_continue_after_generation :: "podcast_state \<Rightarrow> string" where
  "should_continue_after_generation state =
     (if status state = ''failed'' then ''end''
      else
        let successful_clips = filter success (processed_clips state) in
        if successful_clips = [] then ''end''
        else ''metadata'')"

text \<open>The nodes of the graph and its edges. A conditional edge maps the answer of
  its routing function to the next node, \<open>None\<close> being \<^verbatim>\<open>END\<close>; the metadata stage
  has the plain edge to \<^verbatim>\<open>END\<close>.\<close>

fun run_node :: "env \<Rightarrow> node \<Rightarrow> podcast_state \<Rightarrow> podcast_state" where
  "run_node env fetch_transcript state = fetch_transcript_node env state"
| "run_node env analyze_content state = analyze_content_node env state"
| "run_node env select_clips state = select_clips_node (from_env env) state"
| "run_node env download_video state = download_video_node env state"
| "run_node env generate_clips state = generate_clips_node env state"
| "run_node env generate_metadata state = generate_metadata_node env state"

definition edge :: "(string \<times> node option) list \<Rightarrow> string \<Rightarrow> node option" where
  "edge mapping answer = (case map_of mapping answer of Some target \<Rightarrow> target | None \<Rightarrow> None)"

fun next_node :: "node \<Rightarrow> podcast_state \<Rightarrow> node option" where
  "next_node fetch_transcript state =
     edge [(''analyze'', Some analyze_content), (''end'', None)]
       (should_continue_after_transcript state)"
| "next_node analyze_content state =
     edge [(''select'', Some select_clips), (''end'', None)]
       (should_continue_after_analysis state)"
| "next_node select_clips state =
     edge [(''download'', Some download_video), (''end'', None)]
       (should_continue_after_selection state)"
| "next_node download_video state =
     edge [(''generate'', Some generate_clips), (''end'', None)]
       (should_continue_after_download state)"
| "next_node generate_clips state =
     edge [(''metadata'', Some generate_metadata), (''end'', None)]
       (should_continue_after_generation state)"
| "next_node generate_metadata state = None"

fun rank :: "node \<Rightarrow> nat" where
  "rank fetch_transcript = 5"
| "rank analyze_content = 4"
| "rank select_clips = 3"
| "rank download_video = 2"
| "rank generate_clips = 1"
| "rank generate_metadata = 0"

text \<open>\<^verbatim>\<open>graph.invoke\<close>: the stages executed from a node on, each with the state it
  returns, in order of execution.\<close>

function invoke_from :: "env \<Rightarrow> node \<Rightarrow> podcast_state \<Rightarrow> (node \<times> podcast_state) list" where
  "invoke_from env n state =
     (let state' = run_node env n state in
      (n, state') #
      (case next_node n state' of
         None \<Rightarrow> []
       | Some n' \<Rightarrow> invoke_from env n' state'))"
  by pat_completeness auto
termination
proof (relation "measure (\<lambda>(env, n, state). rank n)")
  show "wf (measure (\<lambda>(env, n, state). rank n))" by simp
next
  fix env :: env and n :: node and state state' :: podcast_state and n' :: node
  assume "state' = run_node env n state" and "next_node n state' = Some n'"
  then have "rank n' < rank n"
    by (cases n)
       (auto simp: edge_def should_continue_after_transcript_def
          should_continue_after_analysis_def should_continue_after_selection_def
          should_continue_after_download_def should_continue_after_generation_def
          Let_def split: if_splits)
  then show "((env, n', state'), (env, n, state)) \<in> measure (\<lambda>(env, n, state). rank n)"
    by simp
qed

declare invoke_from.simps [simp del]

definition invoke :: "env \<Rightarrow> podcast_state \<Rightarrow> (node \<times> podcast_state) list" where
  "invoke env initial = invoke_from env fetch_transcript initial"

text \<open>The state \<^verbatim>\<open>process_video\<close> starts the workflow from.\<close>

definition initial_state :: "env \<Rightarrow> string \<Rightarrow> (string \<times> int) list \<Rightarrow> podcast_state" where
  "initial_state env url' config' =
     \<lparr>url = url', video_path = None, audio_path = None, transcript = None,
      transcript_segments = [], transcript_source = None, identified_clips = [],
      selected_clips = [], processed_clips = [], metadata = [], video_title = None,
      video_duration = None, video_id = None, errors = [], warnings = [],
      config = config', status = ''starting'', created_at = Some (now env 0),
      completed_at = None, video_metadata = None\<rparr>"

text \<open>\<^verbatim>\<open>_print_summary\<close> only prints, but two of its lines raise a \<^verbatim>\<open>TypeError\<close> on
  \<^verbatim>\<open>None\<close>: the format \<^verbatim>\<open>:.1f\<close> of the video duration (line 208) and \<^verbatim>\<open>len\<close> of
  the transcript (line 209). The time stamps it parses are produced by
  \<^verbatim>\<open>isoformat\<close>.\<close>

definition print_summary :: "podcast_state \<Rightarrow> exn option" where
  "print_summary state =
     (if video_duration state = None then
        Some (Exception ''unsupported format string passed to NoneType.__format__'')
      else if transcript state = None then
        Some (Exception (''object of type '' @ [CHR 0x27] @ ''NoneType'' @ [CHR 0x27] @
                         '' has no len()''))
      else None)"

text \<open>The \<^verbatim>\<open>except\<close> branch of \<^verbatim>\<open>process_video\<close>: it returns the initial state with
  one more error and the status \<^verbatim>\<open>failed\<close>. The stages assign their results to the
  state they are given, not to \<^verbatim>\<open>initial_state\<close>; of their effects only the appends
  to shared lists are seen there.\<close>

definition workflow_failed :: "env \<Rightarrow> podcast_state \<Rightarrow> podcast_state \<Rightarrow> exn \<Rightarrow> podcast_state" where
  "workflow_failed env initial final_state e =
     initial\<lparr>errors := (if lists_shared env then errors final_state else errors initial) @
                         [''Workflow execution failed: '' @ str_exn e],
             warnings := (if lists_shared env then warnings final_state else warnings initial),
             status := ''failed'',
             completed_at := Some (now env 3)\<rparr>"

text \<open>\<^verbatim>\<open>process_video\<close>. Every stage catches the exceptions of its collaborators, so
  within the \<^verbatim>\<open>try\<close> block only the summary raises.\<close>

definition process_video :: "env \<Rightarrow> string \<Rightarrow> (string \<times> int) list \<Rightarrow> podcast_state" where
  "process_video env url' config' =
     (let initial = initial_state env url' config';
          final_state = (snd (last (invoke env initial)))\<lparr>completed_at := Some (now env 2)\<rparr>
      in case print_summary final_state of
           None \<Rightarrow> final_state
         | Some e \<Rightarrow> workflow_failed env initial final_state e)"



section \<open>Specification predicates and example inputs\<close>

text \<open>The code points of the characters \<^verbatim>\<open>" * / : < > ? \ |\<close>, which a file name must
  not contain, and of the space and the dot, which it must neither start nor end with.\<close>

definition forbidden_code_points :: "nat set" where
  "forbidden_code_points = {34, 42, 47, 58, 60, 62, 63, 92, 124}"

definition stripped_code_points :: "nat set" where
  "stripped_code_points = {32, 46}"

text \<open>The bounds a clip has to meet: its duration lies between the minimum and the
  maximum clip duration and its score reaches the minimum engagement score. A
  duration that is NaN or infinite lies in no interval.\<close>

definition within_bounds :: "processing_config \<Rightarrow> video_segment \<Rightarrow> bool" where
  "within_bounds p clip \<longleftrightarrow>
     float_le (number (min_clip_duration p)) (float_sub (end_time clip) (start_time clip)) \<and>
     float_le (float_sub (end_time clip) (start_time clip)) (number (max_clip_duration p)) \<and>
     min_engagement_score p \<le> score clip"

text \<open>What the validation loop tests: none of its three rejecting comparisons holds.\<close>

definition passes_validation :: "processing_config \<Rightarrow> video_segment \<Rightarrow> bool" where
  "passes_validation p clip \<longleftrightarrow>
     \<not> float_lt (float_sub (end_time clip) (start_time clip)) (number (min_clip_duration p)) \<and>
     \<not> float_lt (number (max_clip_duration p)) (float_sub (end_time clip) (start_time clip)) \<and>
     \<not> score clip < min_engagement_score p"

text \<open>Descending order of the scores.\<close>

definition score_descending :: "video_segment list \<Rightarrow> bool" where
  "score_descending clips = sorted_wrt (\<lambda>a b. score b \<le> score a) clips"

text \<open>The default configuration of \<^verbatim>\<open>src/models/config.py\<close>: at most 3 clips of 25
  to 35 seconds with a score of at least 7.5.\<close>

definition demo_processing :: processing_config where
  "demo_processing =
     \<lparr>max_clips_per_video = 3, min_clip_duration = 25, max_clip_duration = 35,
      target_clip_duration = 30, min_engagement_score = 7.5,
      max_video_duration = 10800, api_rate_limit_delay = 5\<rparr>"

definition demo_config :: app_config where
  "demo_config =
     \<lparr>output_directory = ''outputs'', temp_directory = ''temp'',
      video = \<lparr>resolution = (1080, 1920), aspect_ratio = ''original''\<rparr>,
      llm = \<lparr>model_name = ''gemini-2.5-flash'', temperature = 0.8, api_key = Some ''key''\<rparr>,
      processing = demo_processing\<rparr>"

text \<open>A clip with finite times, and a clip whose end time is NaN, as the answer
  \<^verbatim>\<open>"end_time": NaN\<close> of the language model is parsed by \<^verbatim>\<open>json.loads\<close>.\<close>

definition seg :: "real \<Rightarrow> real \<Rightarrow> real \<Rightarrow> video_segment" where
  "seg a b sc =
     \<lparr>start_time = Finite a, end_time = Finite b, content = ''text'', score = sc,
      reasoning = ''reason'', segment_type = ''insight''\<rparr>"

definition nan_clip :: video_segment where
  "nan_clip = (seg 10 35 9)\<lparr>end_time := NaN\<rparr>"

text \<open>An environment in which no transcript is available.\<close>

definition demo_env :: env where
  "demo_env =
     \<lparr>from_env = Inr demo_config,
      extract_video_id_from_url = (\<lambda>u. u),
      get_video_metadata = (\<lambda>u. Inr (None, None)),
      fetch_youtube_transcript = (\<lambda>u. Inl (Exception ''No transcript found for video'')),
      now = (\<lambda>n. ''2024-01-01T00:00:00''),
      generate_content = (\<lambda>c s. Inr []),
      make_directories = None,
      ydl_extract_info = (\<lambda>u. Inl (Exception ''offline'')),
      long_video_warning = (\<lambda>d m. ''Video is very long''),
      ydl_download = (\<lambda>u. Inl (Exception ''offline'')),
      path_exists = (\<lambda>p. False),
      getsize = (\<lambda>p. 0),
      open_video = (\<lambda>p. None),
      subclipped = (\<lambda>c. Inr (1920, 1080)),
      write_clip = (\<lambda>i c f t. Inl (Exception ''offline'')),
      elapsed = (\<lambda>i. 0),
      close_video = None,
      configure_model = None,
      generate_clip_metadata = (\<lambda>i c. Inr None),
      lists_shared = True\<rparr>"

text \<open>A state as \<^verbatim>\<open>process_video\<close> creates it, with the given candidate clips.\<close>

definition demo_state :: "video_segment list \<Rightarrow> podcast_state" where
  "demo_state clips = (initial_state demo_env ''video'' [])\<lparr>identified_clips := clips\<rparr>"


text \<open>A configuration asking for \<open>-1\<close> clips, as \<^verbatim>\<open>MAX_CLIPS_PER_VIDEO=-1\<close> gives it.\<close>

definition negative_config :: app_config where
  "negative_config = demo_config\<lparr>processing := demo_processing\<lparr>max_clips_per_video := - 1\<rparr>\<rparr>"


text \<open>An environment in which the transcript is fetched and one clip is identified and
  selected, but the download fails.\<close>

definition offline_env :: env where
  "offline_env =
     demo_env\<lparr>fetch_youtube_transcript :=
                 (\<lambda>u. Inr (''words of the transcript'',
                            [\<lparr>ts_start_time = 0, ts_end_time = 5, ts_text = ''words'',
                              ts_confidence = Some 0.95\<rparr>],
                            ''youtube_manual'')),
               generate_content := (\<lambda>c s. Inr [seg 40 70 9])\<rparr>"


section \<open>Properties of the float operations\<close>

text \<open>The binary exponent of a number between two powers of two, and the rounding of a
  number whose exponent is known.\<close>

lemma float_exponent_eq:
  assumes "2 powi e \<le> \<bar>x\<bar>" "\<bar>x\<bar> < 2 powi (e + 1)" "- 1022 \<le> e"
  shows "float_exponent x = e"
proof -
  have pos: "0 < \<bar>x\<bar>"
    using assms(1) by (smt (verit) zero_less_power_int)
  have p: "(2::real) powr real_of_int k = 2 powi k" for k
    by (simp add: powr_real_of_int')
  have "real_of_int e \<le> log 2 \<bar>x\<bar>"
    using assms(1) pos by (simp add: le_log_iff p)
  moreover have "log 2 \<bar>x\<bar> < real_of_int (e + 1)"
    using assms(2) pos by (simp only: log_less_iff p)
  ultimately have "\<lfloor>log 2 \<bar>x\<bar>\<rfloor> = e"
    by (simp add: floor_eq_iff)
  then show ?thesis
    using assms(3) by (simp add: float_exponent_def)
qed

lemma round_binary64_eval:
  assumes "2 powi e \<le> \<bar>x\<bar>" "\<bar>x\<bar> < 2 powi (e + 1)" "- 1022 \<le> e"
  shows "round_binary64 x =
     (let q = 2 powi (e - 52);
          y = of_int (round_half_even (x / q)) * q
      in if 2 ^ 1024 \<le> \<bar>y\<bar> then (if 0 < x then PosInf else NegInf) else Finite y)"
proof -
  have "x \<noteq> 0"
    using assms(1) by (smt (verit) zero_less_power_int abs_zero)
  then show ?thesis
    by (simp add: round_binary64_def float_exponent_eq [OF assms])
qed

lemma round_half_even_of_int [simp]: "round_half_even (of_int n) = n"
  by (simp add: round_half_even_def)

lemma round_binary64_of_int:
  assumes "\<bar>n\<bar> < 2 ^ 53"
  shows "round_binary64 (of_int n) = Finite (of_int n)"
proof (cases "n = 0")
  case True
  then show ?thesis by (simp add: round_binary64_def)
next
  case False
  define x :: real where "x = of_int n"
  have "1 \<le> \<bar>n\<bar>"
    using False by simp
  then have "(1::real) \<le> of_int \<bar>n\<bar>"
    by (simp only: of_int_1_le_iff)
  then have x1: "1 \<le> \<bar>x\<bar>"
    by (simp add: x_def)
  have "(of_int \<bar>n\<bar> :: real) < of_int (2 ^ 53)"
    using assms by (simp only: of_int_less_iff)
  then have x2: "\<bar>x\<bar> < 2 ^ 53"
    by (simp add: x_def)
  have "0 \<le> log 2 \<bar>x\<bar>"
    using x1 by simp
  moreover have "log 2 \<bar>x\<bar> < 53"
    using x1 x2 by (simp add: log_less_iff powr_realpow [symmetric] del: powr_numeral)
  ultimately have e: "0 \<le> \<lfloor>log 2 \<bar>x\<bar>\<rfloor>" "\<lfloor>log 2 \<bar>x\<bar>\<rfloor> \<le> 52"
    by (simp_all add: floor_le_iff)
  define k where "k = nat (52 - \<lfloor>log 2 \<bar>x\<bar>\<rfloor>)"
  have fe: "float_exponent x - 52 = - int k"
    using e by (simp add: float_exponent_def k_def)
  have q: "(2::real) powi (float_exponent x - 52) = 1 / 2 ^ k"
    by (simp add: fe power_int_minus_divide)
  have "x * 2 ^ k = of_int (n * 2 ^ k)"
    by (simp add: x_def)
  then have r: "round_half_even (x * 2 ^ k) = n * 2 ^ k"
    by (simp only: round_half_even_of_int)
  have y: "of_int (round_half_even (x / 2 powi (float_exponent x - 52))) *
      2 powi (float_exponent x - 52) = x"
    by (simp add: q r) (simp add: x_def)
  have "x \<noteq> 0"
    using x1 by auto
  moreover have "\<not> 2 ^ 1024 \<le> \<bar>x\<bar>"
    using x2 by simp
  ultimately have "round_binary64 x = Finite x"
    unfolding round_binary64_def Let_def y by simp
  then show ?thesis by (simp add: x_def)
qed

lemma round_binary64_numeral:
  "(numeral w :: int) < 2 ^ 53 \<Longrightarrow> round_binary64 (numeral w) = Finite (numeral w)"
  using round_binary64_of_int [of "numeral w"] by simp

lemma round_binary64_0: "round_binary64 0 = Finite 0"
  by (simp add: round_binary64_def)

lemma round_binary64_1: "round_binary64 1 = Finite 1"
  using round_binary64_of_int [of 1] by simp

lemma round_binary64_neg_numeral:
  "(numeral w :: int) < 2 ^ 53 \<Longrightarrow> round_binary64 (- numeral w) = Finite (- numeral w)"
  using round_binary64_of_int [of "- numeral w"] by simp


section \<open>Properties of \<open>sanitize_filename\<close>\<close>

lemma underscore_valid: "of_char (CHR ''_'') \<notin> set invalid_chars"
  by (simp add: invalid_chars_def py_def)

lemma set_re_sub_invalid: "set (re_sub_invalid s) \<inter> set invalid_chars = {}"
  using underscore_valid by (auto simp: re_sub_invalid_def)

lemma set_py_strip: "set (py_strip cs s) \<subseteq> set s"
proof -
  have "set (py_strip cs s) \<subseteq> set (dropWhile (\<lambda>c. c \<in> set cs) s)"
    unfolding py_strip_def using set_dropWhileD by fastforce
  also have "\<dots> \<subseteq> set s"
    using set_dropWhileD by fastforce
  finally show ?thesis .
qed

lemma set_sanitize_filename:
  "set (sanitize_filename s) \<subseteq> set (re_sub_invalid s)"
proof -
  have "set (sanitize_filename s) \<subseteq> set (py_strip (py '' .'') (re_sub_invalid s))"
    by (auto simp: sanitize_filename_def Let_def dest: in_set_takeD)
  with set_py_strip show ?thesis by blast
qed


lemma set_invalid_chars: "set invalid_chars = forbidden_code_points"
  by (auto simp: invalid_chars_def py_def forbidden_code_points_def)

lemma set_strip_chars: "set (py '' .'') = stripped_code_points"
  by (auto simp: py_def stripped_code_points_def)

lemma re_sub_invalid_map:
  "re_sub_invalid s = map (\<lambda>c. if c \<in> forbidden_code_points then 95 else c) s"
  by (simp add: re_sub_invalid_def set_invalid_chars)

lemma py_strip_split:
  "\<exists>pre mid post.
     s = pre @ mid @ post \<and> set pre \<subseteq> set cs \<and> set post \<subseteq> set cs \<and>
     (mid = [] \<or> hd mid \<notin> set cs \<and> last mid \<notin> set cs) \<and>
     py_strip cs s = mid"
proof -
  let ?P = "\<lambda>c. c \<in> set cs"
  let ?pre = "takeWhile ?P s"
  let ?rest = "dropWhile ?P s"
  let ?mid = "rev (dropWhile ?P (rev ?rest))"
  let ?post = "rev (takeWhile ?P (rev ?rest))"
  have "rev ?rest = takeWhile ?P (rev ?rest) @ dropWhile ?P (rev ?rest)"
    by simp
  then have "rev (rev ?rest) = rev (takeWhile ?P (rev ?rest) @ dropWhile ?P (rev ?rest))"
    by (rule arg_cong)
  then have rest: "?rest = ?mid @ ?post"
    by (simp only: rev_rev_ident rev_append)
  have s: "s = ?pre @ ?mid @ ?post"
    using rest takeWhile_dropWhile_id [of ?P s] by simp
  have pre: "set ?pre \<subseteq> set cs"
    by (auto dest: set_takeWhileD)
  have post: "set ?post \<subseteq> set cs"
    by (auto dest: set_takeWhileD)
  have ends: "hd ?mid \<notin> set cs \<and> last ?mid \<notin> set cs" if ne: "?mid \<noteq> []"
  proof
    from ne have d: "dropWhile ?P (rev ?rest) \<noteq> []" by simp
    then have "\<not> ?P (hd (dropWhile ?P (rev ?rest)))"
      by (rule hd_dropWhile)
    then show "last ?mid \<notin> set cs"
      using d by (simp add: last_rev)
    have r: "?rest \<noteq> []"
    proof
      assume a: "?rest = []"
      have "?mid = []" unfolding a by simp
      with ne show False by blast
    qed
    then have "\<not> ?P (hd ?rest)"
      by (rule hd_dropWhile)
    moreover have "hd ?rest = hd ?mid"
      using ne rest by (metis hd_append2)
    ultimately show "hd ?mid \<notin> set cs"
      by simp
  qed
  have "py_strip cs s = ?mid"
    by (simp add: py_strip_def)
  with s pre post ends show ?thesis
    by blast
qed

text \<open>
  Claim C10. For every input string, \<open>sanitize_filename\<close> returns a string of at most
  200 code points in which none of the characters \<^verbatim>\<open>< > : " / \ | ? *\<close> occurs.
  The result is determined by the input: with every such character of the input
  replaced by an underscore (code point 95), the string splits into a leading run of
  spaces and dots, a middle part that neither starts nor ends with a space or a dot,
  and a trailing run of spaces and dots; the result is the first 200 code points of
  the middle part.
\<close>

theorem sanitize_filename_safe:
  "length (sanitize_filename s) \<le> 200 \<and>
   set (sanitize_filename s) \<inter> forbidden_code_points = {} \<and>
   (\<exists>pre mid post.
      map (\<lambda>c. if c \<in> forbidden_code_points then 95 else c) s = pre @ mid @ post \<and>
      set pre \<subseteq> stripped_code_points \<and> set post \<subseteq> stripped_code_points \<and>
      (mid = [] \<or> hd mid \<notin> stripped_code_points \<and> last mid \<notin> stripped_code_points) \<and>
      sanitize_filename s = take 200 mid)"
proof (intro conjI)
  show "length (sanitize_filename s) \<le> 200"
    by (simp add: sanitize_filename_def Let_def)
  show "set (sanitize_filename s) \<inter> forbidden_code_points = {}"
    using set_sanitize_filename [of s] set_re_sub_invalid [of s]
    unfolding set_invalid_chars by blast
  have eq: "sanitize_filename s = take 200 (py_strip (py '' .'') (re_sub_invalid s))"
    by (simp add: sanitize_filename_def Let_def)
  obtain pre mid post where h:
    "re_sub_invalid s = pre @ mid @ post"
    "set pre \<subseteq> set (py '' .'')" "set post \<subseteq> set (py '' .'')"
    "mid = [] \<or> hd mid \<notin> set (py '' .'') \<and> last mid \<notin> set (py '' .'')"
    "py_strip (py '' .'') (re_sub_invalid s) = mid"
    using py_strip_split [of "re_sub_invalid s" "py '' .''"] by blast
  show "\<exists>pre mid post.
      map (\<lambda>c. if c \<in> forbidden_code_points then 95 else c) s = pre @ mid @ post \<and>
      set pre \<subseteq> stripped_code_points \<and> set post \<subseteq> stripped_code_points \<and>
      (mid = [] \<or> hd mid \<notin> stripped_code_points \<and> last mid \<notin> stripped_code_points) \<and>
      sanitize_filename s = take 200 mid"
  proof (intro exI conjI)
    show "map (\<lambda>c. if c \<in> forbidden_code_points then 95 else c) s = pre @ mid @ post"
      using h(1) by (simp add: re_sub_invalid_map)
    show "set pre \<subseteq> stripped_code_points" "set post \<subseteq> stripped_code_points"
      using h(2,3) by (simp_all add: set_strip_chars)
    show "mid = [] \<or> hd mid \<notin> stripped_code_points \<and> last mid \<notin> stripped_code_points"
      using h(4) by (simp add: set_strip_chars)
    show "sanitize_filename s = take 200 mid"
      using eq h(5) by simp
  qed
qed

text \<open>An example: the three invalid characters become underscores, the spaces and the
  dot at the ends are removed.\<close>

theorem sanitize_filename_safe_witness:
  "sanitize_filename (py ''  a<b>:c. '') = py ''a_b__c'' \<and>
   length (sanitize_filename (py ''  a<b>:c. '')) \<le> 200 \<and>
   set (sanitize_filename (py ''  a<b>:c. '')) \<inter> forbidden_code_points = {}"
proof -
  have "sanitize_filename (py ''  a<b>:c. '') = py ''a_b__c''"
    by (simp add: sanitize_filename_def re_sub_invalid_def py_strip_def py_def invalid_chars_def)
  then show ?thesis
    using sanitize_filename_safe [of "py ''  a<b>:c. ''"] by simp
qed

section \<open>Properties of the clip selection stage\<close>

lemma validate_clips_filter: "validate_clips p clips = filter (passes_validation p) clips"
  by (induction clips) (auto simp: passes_validation_def Let_def)

text \<open>A clip passes the loop when it is within the bounds, or when its duration is NaN
  and its score reaches the minimum: every comparison with NaN is false.\<close>

lemma passes_validation_iff:
  "passes_validation p c \<longleftrightarrow>
     within_bounds p c \<or>
     float_sub (end_time c) (start_time c) = NaN \<and> min_engagement_score p \<le> score c"
  by (cases "float_sub (end_time c) (start_time c)")
     (auto simp: passes_validation_def within_bounds_def number_def)

lemma set_sort_score_reverse: "set (sort_score_reverse xs) = set xs"
  by (simp add: sort_score_reverse_def)

lemma sorted_sort_score_reverse: "score_descending (sort_score_reverse xs)"
proof -
  have "sorted (map score (sort_key score (rev xs)))" by simp
  then have "sorted_wrt (\<lambda>a b. score a \<le> score b) (sort_key score (rev xs))"
    by (simp add: sorted_map)
  then show ?thesis
    by (simp add: score_descending_def sort_score_reverse_def sorted_wrt_rev)
qed

lemma stable_sort_score_reverse:
  "filter (\<lambda>c. score c = k) (sort_score_reverse xs) = filter (\<lambda>c. score c = k) xs"
proof -
  have "filter (\<lambda>c. score c = k) (sort_key score (rev xs)) = filter (\<lambda>c. score c = k) (rev xs)"
    by (rule sort_key_stable)
  then show ?thesis
    by (simp add: sort_score_reverse_def rev_filter [symmetric])
qed

lemma parse_clips_Inr: "parse_clips xs = Inr ys \<Longrightarrow> ys = xs"
  by (induction xs arbitrary: ys) (auto simp: VideoSegment_def split: if_splits sum.splits)

lemma set_slice_to: "set (slice_to xs k) \<subseteq> set xs"
  by (auto simp: slice_to_def dest: in_set_takeD)

lemma slice_to_nonneg: "0 \<le> k \<Longrightarrow> slice_to xs k = take (min (nat k) (length xs)) xs"
  by (simp add: slice_to_def min_def)

lemma set_validated_clips:
  "set (validated_clips p clips) = {c \<in> set clips. passes_validation p c}"
  by (simp add: validated_clips_def set_sort_score_reverse validate_clips_filter)

lemma select_clips_node_selected:
  assumes "status (select_clips_node (Inr cfg) s) \<noteq> ''selection_failed''"
  shows "selected_clips (select_clips_node (Inr cfg) s) =
           selected_prefix (processing cfg) (identified_clips s)"
  using assms
  by (auto simp: select_clips_node_def selected_prefix_def validated_clips_def
        sort_score_reverse_def slice_to_def
      split: sum.splits if_splits dest: parse_clips_Inr)

text \<open>The duration is the rounded difference of the times. The floats nearest to 0.1
  and to 35.1 differ by more than 35, and their float difference is 35: under the
  maximum of 35 seconds the loop keeps a clip with these times, as Python does
  (\<^verbatim>\<open>35.1 - 0.1 == 35.0\<close>).\<close>

lemma round_binary64_tenth:
  "round_binary64 (1 / 10) = Finite (3602879701896397 / 36028797018963968)"
  by (simp add: round_binary64_eval [of "-4" "1 / 10"] round_half_even_def)

lemma round_binary64_351_tenths:
  "round_binary64 (351 / 10) = Finite (4939885841272013 / 140737488355328)"
  by (simp add: round_binary64_eval [of 5 "351 / 10"] round_half_even_def)

lemma float_sub_rounded:
  "float_sub (Finite (4939885841272013 / 140737488355328))
     (Finite (3602879701896397 / 36028797018963968)) = Finite 35"
  by (simp add: float_sub_def round_half_even_def
      round_binary64_eval [of 5 "1261007895663738931 / 36028797018963968"])

lemma validate_clips_rounded_duration:
  "validate_clips demo_processing
     [seg (3602879701896397 / 36028797018963968) (4939885841272013 / 140737488355328) 9] =
     [seg (3602879701896397 / 36028797018963968) (4939885841272013 / 140737488355328) 9] \<and>
   (35 :: real) < 4939885841272013 / 140737488355328 - 3602879701896397 / 36028797018963968"
  by (simp add: seg_def demo_processing_def float_sub_rounded number_def)

text \<open>Every clip the stage stores, when it does not fail, is a candidate that is within
  the bounds or has the duration NaN.\<close>

lemma select_clips_node_within_bounds_or_nan:
  assumes "status (select_clips_node (Inr cfg) s) \<noteq> ''selection_failed''"
      and "c \<in> set (selected_clips (select_clips_node (Inr cfg) s))"
  shows "c \<in> set (identified_clips s) \<and>
         (within_bounds (processing cfg) c \<or> float_sub (end_time c) (start_time c) = NaN)"
proof -
  have "c \<in> set (selected_prefix (processing cfg) (identified_clips s))"
    using assms select_clips_node_selected [of cfg s] by simp
  then have "c \<in> set (validated_clips (processing cfg) (identified_clips s))"
    using set_slice_to [of "validated_clips (processing cfg) (identified_clips s)"
        "max_clips_per_video (processing cfg)"]
    by (auto simp: selected_prefix_def)
  then show ?thesis
    by (auto simp: set_validated_clips passes_validation_iff)
qed

text \<open>The facts that evaluate the stage on the example inputs.\<close>

lemmas demo_simps =
  select_clips_node_def demo_state_def initial_state_def demo_config_def demo_processing_def
  seg_def VideoSegment_def selected_prefix_def validated_clips_def sort_score_reverse_def
  slice_to_def float_sub_def number_def round_binary64_numeral round_binary64_neg_numeral

text \<open>
  Claim C1. The validation loop rejects a clip when its duration is less than the
  minimum or greater than the maximum. Both comparisons are false of NaN: a candidate
  with the start time 10, the end time NaN and the score 9 has the duration NaN,
  survives the loop under the default bounds of 25 and 35 seconds and is stored in
  \<open>selected_clips\<close> with the status \<^verbatim>\<open>clips_selected\<close>, although its duration is
  not within the bounds.
\<close>

theorem select_clips_node_keeps_nan:
  "selected_clips (select_clips_node (Inr demo_config) (demo_state [nan_clip])) = [nan_clip] \<and>
   status (select_clips_node (Inr demo_config) (demo_state [nan_clip])) = ''clips_selected'' \<and>
   float_sub (end_time nan_clip) (start_time nan_clip) = NaN \<and>
   \<not> within_bounds (processing demo_config) nan_clip"
  by (simp add: demo_simps nan_clip_def within_bounds_def)

text \<open>The stage on two candidates, the first of them too long.\<close>

lemma demo_select:
  "select_clips_node (Inr demo_config) (demo_state [seg 0 40 8, seg 10 35 9]) =
     (demo_state [seg 0 40 8, seg 10 35 9])\<lparr>selected_clips := [seg 10 35 9], status := ''clips_selected''\<rparr>"
  by (simp add: demo_simps)

lemma score_descending_take: "score_descending xs \<Longrightarrow> score_descending (take n xs)"
  unfolding score_descending_def by (rule sorted_wrt_take)

lemma score_descending_slice_to: "score_descending xs \<Longrightarrow> score_descending (slice_to xs k)"
  by (simp add: slice_to_def score_descending_take)

lemma stable_validated_clips:
  "filter (\<lambda>c. score c = k) (validated_clips p clips) =
   filter (\<lambda>c. score c = k) (filter (passes_validation p) clips)"
  by (simp add: validated_clips_def stable_sort_score_reverse validate_clips_filter)

text \<open>
  Claim C4. The survivors of the validation are sorted by descending score, and the
  survivors with one and the same score appear in the order in which the candidates
  list them; the clips the stage stores, a prefix of the survivors, are in
  descending order of score as well.
\<close>

theorem validated_clips_sorted_stable:
  "score_descending (validated_clips p clips) \<and>
   filter (\<lambda>c. score c = k) (validated_clips p clips) =
     filter (\<lambda>c. score c = k) (filter (passes_validation p) clips) \<and>
   (status (select_clips_node (Inr cfg) s) \<noteq> ''selection_failed'' \<longrightarrow>
      score_descending (selected_clips (select_clips_node (Inr cfg) s)))"
proof (intro conjI impI)
  show "score_descending (validated_clips p clips)"
    by (simp add: validated_clips_def sorted_sort_score_reverse)
  show "filter (\<lambda>c. score c = k) (validated_clips p clips) =
     filter (\<lambda>c. score c = k) (filter (passes_validation p) clips)"
    by (rule stable_validated_clips)
next
  assume "status (select_clips_node (Inr cfg) s) \<noteq> ''selection_failed''"
  then have "selected_clips (select_clips_node (Inr cfg) s) =
      selected_prefix (processing cfg) (identified_clips s)"
    by (rule select_clips_node_selected)
  then show "score_descending (selected_clips (select_clips_node (Inr cfg) s))"
    by (simp add: selected_prefix_def score_descending_slice_to validated_clips_def
        sorted_sort_score_reverse)
qed

text \<open>The example of the specification: scores 7.9, 9.0, 9.0 at positions 0, 1, 2 come
  out in the order 1, 2, 0.\<close>

lemma demo_ranked:
  "select_clips_node (Inr demo_config) (demo_state [seg 0 30 7.9, seg 40 70 9, seg 80 110 9]) =
     (demo_state [seg 0 30 7.9, seg 40 70 9, seg 80 110 9])
       \<lparr>selected_clips := [seg 40 70 9, seg 80 110 9, seg 0 30 7.9], status := ''clips_selected''\<rparr>"
  by (simp add: demo_simps)

theorem validated_clips_sorted_stable_witness:
  "status (select_clips_node (Inr demo_config)
       (demo_state [seg 0 30 7.9, seg 40 70 9, seg 80 110 9])) \<noteq> ''selection_failed'' \<and>
   selected_clips (select_clips_node (Inr demo_config)
       (demo_state [seg 0 30 7.9, seg 40 70 9, seg 80 110 9])) =
     [seg 40 70 9, seg 80 110 9, seg 0 30 7.9] \<and>
   score_descending [seg 40 70 9, seg 80 110 9, seg 0 30 7.9] \<and>
   filter (\<lambda>c. score c = 9)
     (validated_clips demo_processing [seg 0 30 7.9, seg 40 70 9, seg 80 110 9]) =
     [seg 40 70 9, seg 80 110 9]"
proof -
  have ok: "status (select_clips_node (Inr demo_config)
       (demo_state [seg 0 30 7.9, seg 40 70 9, seg 80 110 9])) \<noteq> ''selection_failed''"
    by (simp add: demo_ranked)
  have sel: "selected_clips (select_clips_node (Inr demo_config)
       (demo_state [seg 0 30 7.9, seg 40 70 9, seg 80 110 9])) =
     [seg 40 70 9, seg 80 110 9, seg 0 30 7.9]"
    by (simp add: demo_ranked)
  have flt: "filter (\<lambda>c. score c = 9)
       (filter (passes_validation demo_processing) [seg 0 30 7.9, seg 40 70 9, seg 80 110 9]) =
     [seg 40 70 9, seg 80 110 9]"
    by (simp add: passes_validation_def demo_simps)
  show ?thesis
    using validated_clips_sorted_stable [of demo_processing
        "[seg 0 30 7.9, seg 40 70 9, seg 80 110 9]" 9 demo_config
        "demo_state [seg 0 30 7.9, seg 40 70 9, seg 80 110 9]"] ok sel flt
    by simp
qed

text \<open>
  Claim C5. The stage takes the clips with the slice \<^verbatim>\<open>validated_clips[:max_clips]\<close>.
  With two surviving clips and a maximum of \<open>-1\<close> the slice drops the last survivor
  and keeps the first: the stage stores one clip and reports \<^verbatim>\<open>clips_selected\<close>,
  where the claim requires the empty sequence.
\<close>

theorem select_clips_node_negative_max:
  "selected_clips (select_clips_node (Inr negative_config) (demo_state [seg 40 70 9, seg 80 110 8])) =
     [seg 40 70 9] \<and>
   status (select_clips_node (Inr negative_config) (demo_state [seg 40 70 9, seg 80 110 8])) =
     ''clips_selected'' \<and>
   slice_to [seg 40 70 9, seg 80 110 8] (- 1) = [seg 40 70 9]"
  by (simp add: demo_simps negative_config_def)

text \<open>For a maximum that is not negative the slice is the prefix the claim describes.\<close>

lemma selected_prefix_nonneg:
  "0 \<le> max_clips_per_video p \<Longrightarrow>
   selected_prefix p clips =
     take (min (nat (max_clips_per_video p)) (length (validated_clips p clips)))
       (validated_clips p clips)"
  by (simp add: selected_prefix_def slice_to_nonneg)

text \<open>
  Claim C6, as amended. A rejected candidate adds nothing to \<open>warnings\<close>. Whatever
  the number of rejected candidates, the stage appends at most one warning: the
  message that no clips were identified when there is no candidate, the message that
  no clip passed validation when the stage ends with the status
  \<^verbatim>\<open>no_clips_passed_validation\<close> (there are candidates, nothing raised and no clip is
  selected), and nothing otherwise, also when the stage fails.
\<close>

theorem select_clips_node_warnings:
  "warnings (select_clips_node fe s) =
     warnings s @
       (if identified_clips s = [] then [''No clips identified by analysis'']
        else if status (select_clips_node fe s) = ''no_clips_passed_validation''
        then [''No clips passed validation criteria'']
        else [])"
  by (simp add: select_clips_node_def split: sum.splits)

text \<open>Counterexample to claim C6 as stated: the clip of 40 seconds is rejected, and the
  warnings of the state are the same after the stage as before it.\<close>

theorem rejected_clip_no_warning:
  "seg 0 40 8 \<in> set (identified_clips (demo_state [seg 0 40 8, seg 10 35 9])) \<and>
   \<not> within_bounds (processing demo_config) (seg 0 40 8) \<and>
   warnings (select_clips_node (Inr demo_config) (demo_state [seg 0 40 8, seg 10 35 9])) =
     warnings (demo_state [seg 0 40 8, seg 10 35 9])"
proof -
  have "\<not> within_bounds (processing demo_config) (seg 0 40 8)"
    by (simp add: within_bounds_def demo_simps)
  moreover have "seg 0 40 8 \<in> set (identified_clips (demo_state [seg 0 40 8, seg 10 35 9]))"
    by (simp add: demo_state_def)
  ultimately show ?thesis
    by (simp add: demo_select)
qed

text \<open>
  Claim C8, as amended. The stage changes \<open>selected_clips\<close>, \<open>warnings\<close>,
  \<open>errors\<close> and \<open>status\<close> and no other field: the candidates in
  \<open>identified_clips\<close>, the video path and the processed clips are as before, and
  the warnings and errors of the input state are a prefix of those of the result.
\<close>

theorem select_clips_node_frame:
  "select_clips_node fe s =
     s\<lparr>selected_clips := selected_clips (select_clips_node fe s),
       warnings := warnings (select_clips_node fe s),
       errors := errors (select_clips_node fe s),
       status := status (select_clips_node fe s)\<rparr> \<and>
   identified_clips (select_clips_node fe s) = identified_clips s \<and>
   video_path (select_clips_node fe s) = video_path s \<and>
   processed_clips (select_clips_node fe s) = processed_clips s \<and>
   take (length (warnings s)) (warnings (select_clips_node fe s)) = warnings s \<and>
   take (length (errors s)) (errors (select_clips_node fe s)) = errors s"
  by (simp add: select_clips_node_def split: sum.splits)

text \<open>Counterexample to claim C8 as stated: the stage writes \<open>selected_clips\<close>,
  and it leaves \<open>identified_clips\<close> as it was although a candidate is rejected.\<close>

theorem select_clips_node_writes_selected:
  "selected_clips (select_clips_node (Inr demo_config) (demo_state [seg 0 40 8, seg 10 35 9]))
     \<noteq> selected_clips (demo_state [seg 0 40 8, seg 10 35 9]) \<and>
   identified_clips (select_clips_node (Inr demo_config) (demo_state [seg 0 40 8, seg 10 35 9]))
     = [seg 0 40 8, seg 10 35 9] \<and>
   validated_clips (processing demo_config) [seg 0 40 8, seg 10 35 9] = [seg 10 35 9]"
proof -
  have "validated_clips (processing demo_config) [seg 0 40 8, seg 10 35 9] = [seg 10 35 9]"
    by (simp add: demo_simps)
  moreover have "selected_clips (demo_state [seg 0 40 8, seg 10 35 9]) = []"
    by (simp add: demo_state_def initial_state_def)
  moreover have "identified_clips (demo_state [seg 0 40 8, seg 10 35 9]) =
      [seg 0 40 8, seg 10 35 9]"
    by (simp add: demo_state_def)
  ultimately show ?thesis
    by (simp add: demo_select)
qed



section \<open>Properties of the portrait conversion\<close>

lemmas float_simps =
  convert_to_portrait_def and_then_def int_truediv_def float_of_int_def float_sub_def
  number_def py_max0_def py_min_def round_half_even_def Let_def round_binary64_numeral
  round_binary64_neg_numeral round_binary64_0 round_binary64_1

text \<open>
  Claim C2. For a source of 1920x1080 and a target of 1080x1920 the conversion takes
  the branch commented as adding horizontal padding. It resizes the source to the
  target height 1920, which gives the width \<open>int(1920 * (1920 / 1080)) = 3413\<close>, and
  places it on the canvas of 1080x1920 at the horizontal offset
  \<open>(1080 - 3413) // 2 = -1167\<close> and the vertical offset 0: the clip is wider than the
  canvas and nothing is padded, where the claim has the source resized to the width
  1080 and padded vertically by 656.25.
\<close>

theorem convert_to_portrait_landscape_example:
  "convert_to_portrait (1920, 1080) (1080, 1920) =
     Inr (Composite (1080, 1920) (3413, 1920) (- 1167, 0))"
  by (simp add: float_simps
      round_binary64_eval [of "-1" "9 / 16"]
      round_binary64_eval [of 0 "16 / 9"]
      round_binary64_eval [of "-7" "1 / 100"]
      round_binary64_eval [of 11 "10240 / 3"]
      round_binary64_eval [of 0 "1368281136787911 / 1125899906842624"]
      round_binary64_eval [of 11 "30023997515803305 / 8796093022208"])

text \<open>The rounding of the float operations shows in the result: for a square source of
  854x854 the product \<open>854 * (1920 / 854)\<close> is the float just below 1920, and the new
  width is 1919.\<close>

lemma convert_to_portrait_square_example:
  "convert_to_portrait (854, 854) (1080, 1920) =
     Inr (Composite (1080, 1920) (1919, 1920) (- 420, 0))"
  by (simp add: float_simps
      round_binary64_eval [of "-1" "9 / 16"]
      round_binary64_eval [of "-2" "7 / 16"]
      round_binary64_eval [of "-7" "1 / 100"]
      round_binary64_eval [of 10 "13664 / 9"]
      round_binary64_eval [of 1 "960 / 427"]
      round_binary64_eval [of 10 "1080863910568918959 / 562949953421312"])

section \<open>Properties of the analysis stage\<close>

text \<open>
  Claim C9. When the transcript is absent or empty, or there is no transcript
  segment, the analysis stage appends the one error that no transcript is available
  and changes nothing else: \<open>status\<close> keeps its value and \<open>identified_clips\<close> is
  not written.
\<close>

theorem analyze_content_node_no_transcript:
  assumes "falsy (transcript s) \<or> transcript_segments s = []"
  shows "analyze_content_node env s =
           s\<lparr>errors := errors s @ [''No transcript available for analysis'']\<rparr> \<and>
         status (analyze_content_node env s) = status s \<and>
         identified_clips (analyze_content_node env s) = identified_clips s"
  using assms by (simp add: analyze_content_node_def)

theorem analyze_content_node_no_transcript_witness:
  "(falsy (transcript (demo_state [])) \<or> transcript_segments (demo_state []) = []) \<and>
   analyze_content_node demo_env (demo_state []) =
     (demo_state [])\<lparr>errors := [''No transcript available for analysis'']\<rparr> \<and>
   status (analyze_content_node demo_env (demo_state [])) = ''starting''"
proof -
  have h: "falsy (transcript (demo_state [])) \<or> transcript_segments (demo_state []) = []"
    by (simp add: demo_state_def initial_state_def)
  have e: "errors (demo_state []) = []" "status (demo_state []) = ''starting''"
    by (simp_all add: demo_state_def initial_state_def)
  show ?thesis
    using analyze_content_node_no_transcript [OF h, of demo_env] h e by simp
qed

section \<open>Properties of the workflow\<close>

text \<open>Every routing function answers \<^verbatim>\<open>end\<close> on the status \<^verbatim>\<open>failed\<close>.\<close>

lemma next_node_failed: "status s = ''failed'' \<Longrightarrow> next_node n s = None"
  by (cases n)
     (simp_all add: edge_def should_continue_after_transcript_def
        should_continue_after_analysis_def should_continue_after_selection_def
        should_continue_after_download_def should_continue_after_generation_def)

text \<open>A stage that is followed by another stage did not return the status
  \<^verbatim>\<open>failed\<close>.\<close>

lemma invoke_from_failed_last:
  "Suc i < length (invoke_from env n s) \<Longrightarrow> status (snd (invoke_from env n s ! i)) \<noteq> ''failed''"
proof (induction env n s arbitrary: i rule: invoke_from.induct)
  case (1 env n state)
  let ?s' = "run_node env n state"
  show ?case
  proof (cases "next_node n ?s'")
    case None
    with "1.prems" show ?thesis
      by (simp add: invoke_from.simps [of env n state] Let_def)
  next
    case (Some n')
    show ?thesis
    proof (cases i)
      case 0
      from Some have "status ?s' \<noteq> ''failed''"
        using next_node_failed [of ?s' n] by auto
      with 0 show ?thesis
        by (simp add: invoke_from.simps [of env n state] Let_def)
    next
      case (Suc k)
      with "1.prems" Some have "Suc k < length (invoke_from env n' ?s')"
        by (simp add: invoke_from.simps [of env n state] Let_def)
      then have "status (snd (invoke_from env n' ?s' ! k)) \<noteq> ''failed''"
        using "1.IH" [OF refl Some] by simp
      with Suc Some show ?thesis
        by (simp add: invoke_from.simps [of env n state] Let_def)
    qed
  qed
qed

text \<open>
  Claim C3. In the sequence of stages a run executes, a stage that returns the status
  \<^verbatim>\<open>failed\<close> is the last one: no stage is executed after it, so
  \<open>identified_clips\<close>, \<open>selected_clips\<close> and \<open>processed_clips\<close> keep the values
  they have when the status becomes \<^verbatim>\<open>failed\<close>.
\<close>

theorem failed_status_halts_workflow:
  assumes "i < length (invoke env s0)"
      and "status (snd (invoke env s0 ! i)) = ''failed''"
      and "i \<le> j" and "j < length (invoke env s0)"
  shows "j = i \<and>
         identified_clips (snd (invoke env s0 ! j)) = identified_clips (snd (invoke env s0 ! i)) \<and>
         selected_clips (snd (invoke env s0 ! j)) = selected_clips (snd (invoke env s0 ! i)) \<and>
         processed_clips (snd (invoke env s0 ! j)) = processed_clips (snd (invoke env s0 ! i))"
proof -
  have "\<not> Suc i < length (invoke env s0)"
    using assms(2) invoke_from_failed_last [of i env fetch_transcript s0]
    by (auto simp: invoke_def)
  with assms(3,4) have "j = i" by simp
  then show ?thesis by simp
qed


text \<open>A run in which the download fails: four stages are executed, and the last one
  returns the status \<^verbatim>\<open>failed\<close>.\<close>

lemma offline_run:
  "map (\<lambda>(n, s). (n, status s, selected_clips s))
     (invoke offline_env (initial_state offline_env ''video'' [])) =
   [(fetch_transcript, ''transcript_fetched'', []),
    (analyze_content, ''clips_identified'', []),
    (select_clips, ''clips_selected'', [seg 40 70 9]),
    (download_video, ''failed'', [seg 40 70 9])]"
  by (simp add: invoke_def invoke_from.simps Let_def offline_env_def demo_env_def initial_state_def
      fetch_transcript_node_def analyze_content_node_def identify_clips_def apply_custom_config_def
      select_clips_node_def download_video_node_def download_failed_def edge_def
      should_continue_after_transcript_def should_continue_after_analysis_def
      should_continue_after_selection_def should_continue_after_download_def
      demo_config_def demo_processing_def seg_def VideoSegment_def selected_prefix_def
      validated_clips_def sort_score_reverse_def slice_to_def float_sub_def number_def
      round_binary64_numeral)

theorem failed_status_halts_workflow_witness:
  "3 < length (invoke offline_env (initial_state offline_env ''video'' [])) \<and>
   status (snd (invoke offline_env (initial_state offline_env ''video'' []) ! 3)) = ''failed'' \<and>
   (3::nat) \<le> 3 \<and>
   length (invoke offline_env (initial_state offline_env ''video'' [])) = 4 \<and>
   selected_clips (snd (invoke offline_env (initial_state offline_env ''video'' []) ! 3)) =
     [seg 40 70 9]"
proof -
  let ?tr = "invoke offline_env (initial_state offline_env ''video'' [])"
  have len: "length ?tr = 4"
    using arg_cong [OF offline_run, of length] by simp
  have "map (\<lambda>(n, s). (n, status s, selected_clips s)) ?tr ! 3 =
      (download_video, ''failed'', [seg 40 70 9])"
    by (simp add: offline_run)
  then have last: "status (snd (?tr ! 3)) = ''failed''"
      "selected_clips (snd (?tr ! 3)) = [seg 40 70 9]"
    using len by (simp_all add: split_beta)
  show ?thesis
    using failed_status_halts_workflow [of 3 offline_env "initial_state offline_env ''video'' []" 3]
      len last
    by simp
qed

text \<open>The \<^verbatim>\<open>except\<close> branch of the transcript stage: the video duration is set
  before the transcript is fetched, the transcript is not.\<close>

lemma fetch_transcript_node_failed:
  assumes "fetch_youtube_transcript env (url s) = Inl e"
  shows "status (fetch_transcript_node env s) = ''failed''"
    and "errors (fetch_transcript_node env s) \<noteq> []"
    and "selected_clips (fetch_transcript_node env s) = selected_clips s"
    and "processed_clips (fetch_transcript_node env s) = processed_clips s"
    and "identified_clips (fetch_transcript_node env s) = identified_clips s"
    and "transcript (fetch_transcript_node env s) = transcript s"
    and "video_duration (fetch_transcript_node env s) \<noteq> None"
  using assms by (simp_all add: fetch_transcript_node_def Let_def split: sum.splits prod.splits)

lemma invoke_transcript_failure:
  assumes "fetch_youtube_transcript env (url s) = Inl e"
  shows "invoke env s = [(fetch_transcript, fetch_transcript_node env s)]"
proof -
  have "next_node fetch_transcript (fetch_transcript_node env s) = None"
    using fetch_transcript_node_failed(1) [OF assms] by (rule next_node_failed)
  then show ?thesis
    by (simp add: invoke_def invoke_from.simps [of env fetch_transcript s])
qed

text \<open>After a failed fetch the summary raises on the absent transcript, and
  \<open>process_video\<close> returns through its \<^verbatim>\<open>except\<close> branch.\<close>

lemma process_video_transcript_failure:
  assumes "fetch_youtube_transcript env u = Inl e"
  shows "\<exists>x. process_video env u c =
           workflow_failed env (initial_state env u c)
             ((fetch_transcript_node env (initial_state env u c))\<lparr>completed_at := Some (now env 2)\<rparr>) x"
proof -
  let ?i = "initial_state env u c"
  have f: "fetch_youtube_transcript env (url ?i) = Inl e"
    using assms by (simp add: initial_state_def)
  have inv: "invoke env ?i = [(fetch_transcript, fetch_transcript_node env ?i)]"
    using f by (rule invoke_transcript_failure)
  have "transcript ?i = None"
    by (simp add: initial_state_def)
  then have t: "transcript (fetch_transcript_node env ?i) = None"
    using fetch_transcript_node_failed(6) [OF f] by simp
  have d: "video_duration (fetch_transcript_node env ?i) \<noteq> None"
    using f by (rule fetch_transcript_node_failed(7))
  have "print_summary ((fetch_transcript_node env ?i)\<lparr>completed_at := Some (now env 2)\<rparr>) \<noteq> None"
    using t d by (simp add: print_summary_def)
  then show ?thesis
    by (auto simp: process_video_def inv Let_def split: option.splits)
qed

text \<open>
  Claim C7. When fetching the transcript raises, the run of \<open>process_video\<close> ends
  with the status \<^verbatim>\<open>failed\<close>, with at least one error, with no selected and no
  processed clips, and the transcript stage is the only stage executed.
\<close>

theorem transcript_failure_fails_run:
  assumes "fetch_youtube_transcript env u = Inl e"
  shows "status (process_video env u c) = ''failed'' \<and>
         errors (process_video env u c) \<noteq> [] \<and>
         selected_clips (process_video env u c) = [] \<and>
         processed_clips (process_video env u c) = [] \<and>
         map fst (invoke env (initial_state env u c)) = [fetch_transcript]"
proof -
  have f: "fetch_youtube_transcript env (url (initial_state env u c)) = Inl e"
    using assms by (simp add: initial_state_def)
  have inv: "invoke env (initial_state env u c) =
      [(fetch_transcript, fetch_transcript_node env (initial_state env u c))]"
    using f by (rule invoke_transcript_failure)
  obtain x where pv: "process_video env u c =
      workflow_failed env (initial_state env u c)
        ((fetch_transcript_node env (initial_state env u c))\<lparr>completed_at := Some (now env 2)\<rparr>) x"
    using process_video_transcript_failure [OF assms] by blast
  have "selected_clips (initial_state env u c) = []"
    and "processed_clips (initial_state env u c) = []"
    by (simp_all add: initial_state_def)
  then have "status (process_video env u c) = ''failed''"
    and "errors (process_video env u c) \<noteq> []"
    and "selected_clips (process_video env u c) = []"
    and "processed_clips (process_video env u c) = []"
    by (simp_all add: pv workflow_failed_def)
  moreover have "map fst (invoke env (initial_state env u c)) = [fetch_transcript]"
    by (simp add: inv)
  ultimately show ?thesis
    by simp
qed

theorem transcript_failure_fails_run_witness:
  "fetch_youtube_transcript demo_env ''video'' = Inl (Exception ''No transcript found for video'') \<and>
   status (process_video demo_env ''video'' []) = ''failed'' \<and>
   errors (process_video demo_env ''video'' []) \<noteq> [] \<and>
   selected_clips (process_video demo_env ''video'' []) = [] \<and>
   processed_clips (process_video demo_env ''video'' []) = [] \<and>
   map fst (invoke demo_env (initial_state demo_env ''video'' [])) = [fetch_transcript]"
proof -
  have h: "fetch_youtube_transcript demo_env ''video'' = Inl (Exception ''No transcript found for video'')"
    by (simp add: demo_env_def)
  show ?thesis
    using transcript_failure_fails_run [OF h, of "[]"] h by simp
qed

text \<open>The state returned in that run: the error of the transcript stage, appended to the
  shared list, and the error of the workflow.\<close>

lemma process_video_demo_errors:
  "errors (process_video demo_env ''video'' []) =
     [''Failed to fetch transcript: No transcript found for video'',
      ''Workflow execution failed: object of type '' @ [CHR 0x27] @ ''NoneType'' @ [CHR 0x27] @
        '' has no len()''] \<and>
   video_title (process_video demo_env ''video'' []) = None"
  by (simp add: process_video_def invoke_def invoke_from.simps Let_def demo_env_def
      initial_state_def fetch_transcript_node_def edge_def should_continue_after_transcript_def
      print_summary_def workflow_failed_def)

end
